theory Spec2Isabelle
  imports Complex_Main "HOL-Library.Sublist" "HOL-Library.Multiset" "HOL-Library.Log_Nat"
begin

section \<open>Auckland Transport real-time departure boards\<close>

text \<open>
  A shallow embedding of the live path of \<^verbatim>\<open>get_departures\<close> and of the status column
  of \<^verbatim>\<open>render_console_board\<close> in \<^verbatim>\<open>ATRTDB.py\<close>, and of \<^verbatim>\<open>get_departures\<close> and
  \<^verbatim>\<open>print_board\<close> in \<^verbatim>\<open>RTDB_downtown.py\<close> and \<^verbatim>\<open>RTDB_Britomart.py\<close>.

  What lies outside the repository is represented by its outcome:
  \<^item> \<^verbatim>\<open>requests.get\<close> either raises or returns a response with a status code and a body;
  \<^item> \<^verbatim>\<open>FeedMessage.ParseFromString\<close> either raises \<^verbatim>\<open>DecodeError\<close> or fills the message,
    so a body is represented by what the decoder makes of it;
  \<^item> a protobuf message is a record of the fields its class has; an optional field is an
    \<open>option\<close>, reading an unset scalar yields the default of its type (\<open>0\<close>, the
    empty string), and reading an attribute the class does not have raises
    \<^verbatim>\<open>AttributeError\<close>;
  \<^item> a \<^verbatim>\<open>datetime\<close> without time zone is a number of microseconds on the wall clock of
    the host; \<^verbatim>\<open>datetime.fromtimestamp\<close> depends on the host's time zone and raises
    outside the range the host supports, so it is a parameter of every function that
    calls it: a function from POSIX seconds to a wall-clock time or to nothing, where
    it raises;
  \<^item> a \<^verbatim>\<open>float\<close> is the rational number it stands for, and a float operation is the
    exact operation followed by rounding to the nearest double.
  The simulation branch of \<^verbatim>\<open>ATRTDB.get_departures\<close> (taken while the API key is the
  placeholder) draws its entries from \<^verbatim>\<open>random\<close> and is not part of the model.
\<close>

subsection \<open>Configuration (ATRTDB.py, lines 26 and 36-72)\<close>

definition MAX_DEPARTURES :: nat where
  "MAX_DEPARTURES = 10"

datatype TransitMode = TRAIN | BUS | FERRY

record Location =
  name :: string
  search_term :: string
  mode :: TransitMode
  route_prefixes :: "string list"
  stop_ids :: "string list"

definition Waitemata_Station :: Location where
  "Waitemata_Station =
     \<lparr>name = ''Waitemata Station'', search_term = ''Waitemata'', mode = TRAIN,
      route_prefixes = [], stop_ids = []\<rparr>"

definition Britomart_Bus_Hub :: Location where
  "Britomart_Bus_Hub =
     \<lparr>name = ''Britomart Bus Hub'', search_term = ''Britomart'', mode = BUS,
      route_prefixes =
        [''64-'', ''65-'', ''66-'', ''67-'', ''68-'', ''18-'', ''20-'', ''22-'',
         ''24-'', ''25-'', ''27-'', ''30-'', ''70-'', ''75-'', ''295-'', ''298-'',
         ''309-'', ''321-'', ''744-'', ''747-'', ''751-'', ''755-'', ''781-'', ''782-''],
      stop_ids = []\<rparr>"

definition Downtown_Ferry_Terminal :: Location where
  "Downtown_Ferry_Terminal =
     \<lparr>name = ''Downtown Ferry Terminal'', search_term = ''Downtown Ferry'', mode = FERRY,
      route_prefixes =
        [''BAYS-'', ''BIRK-'', ''KPHS-'', ''KPHM-'', ''PINE-'', ''RAK-'',
         ''RANG-'', ''TIRI-'', ''WSTH-'', ''MTIA-'', ''HMB-''],
      stop_ids = []\<rparr>"

definition LOCATIONS :: "Location list" where
  "LOCATIONS = [Waitemata_Station, Britomart_Bus_Hub, Downtown_Ferry_Terminal]"

subsection \<open>The decoded feed\<close>

text \<open>
  The messages of the feed, with the fields the code reads:
  \<^verbatim>\<open>entity.trip_update\<close>, \<^verbatim>\<open>trip_update.trip\<close>, \<^verbatim>\<open>trip_update.stop_time_update\<close>,
  \<^verbatim>\<open>trip.route_id\<close>, \<^verbatim>\<open>stu.stop_id\<close>, \<^verbatim>\<open>stu.departure\<close>, \<^verbatim>\<open>departure.time\<close> and
  \<^verbatim>\<open>departure.delay\<close>.
\<close>

record StopTimeEvent =
  ste_time :: "int option"
  ste_delay :: "int option"

record StopTimeUpdate =
  stu_stop_id :: "string option"
  stu_departure :: "StopTimeEvent option"

record TripDescriptor =
  trip_route_id :: "string option"

record TripUpdate =
  tu_trip :: TripDescriptor
  tu_stop_time_update :: "StopTimeUpdate list"

record FeedEntity =
  entity_trip_update :: "TripUpdate option"

text \<open>Reading a scalar field: the value when set, the default of the type otherwise.\<close>

definition pb_int :: "int option \<Rightarrow> int" where
  "pb_int field = (case field of None \<Rightarrow> 0 | Some v \<Rightarrow> v)"

definition pb_str :: "string option \<Rightarrow> string" where
  "pb_str field = (case field of None \<Rightarrow> [] | Some v \<Rightarrow> v)"

text \<open>The body of a response, as \<^verbatim>\<open>ParseFromString\<close> sees it.\<close>

datatype payload = Undecodable | Feed "FeedEntity list"

text \<open>The outcome of \<^verbatim>\<open>requests.get\<close>.\<close>

datatype http_result = RequestFailed | Response int payload

subsection \<open>Exceptions\<close>

text \<open>
  \<open>FromtimestampError\<close> stands for what \<^verbatim>\<open>datetime.fromtimestamp\<close> raises
  (\<^verbatim>\<open>ValueError\<close>, \<^verbatim>\<open>OverflowError\<close> or \<^verbatim>\<open>OSError\<close>, as the host has it).
\<close>

datatype py_exception = RequestException | DecodeError | AttributeError | FromtimestampError

text \<open>
  The expression \<^verbatim>\<open>trip.trip_headsign\<close> (ATRTDB.py, line 158; RTDB_downtown.py, line 66;
  RTDB_Britomart.py, line 65), where \<^verbatim>\<open>trip\<close> is \<^verbatim>\<open>entity.trip_update.trip\<close>. That
  message is a \<^verbatim>\<open>TripDescriptor\<close>, whose fields are the trip, route and direction
  identifiers, the start time and date and the schedule relationship: GTFS-realtime
  keeps the headsign of a trip elsewhere, and \<^verbatim>\<open>TripDescriptor\<close> has no attribute
  \<^verbatim>\<open>trip_headsign\<close>. So the read raises, whatever the trip is.
\<close>

definition getattr_trip_headsign :: "TripDescriptor \<Rightarrow> py_exception + string" where
  "getattr_trip_headsign trip = Inl AttributeError"

subsection \<open>Time\<close>

type_synonym datetime = int

text \<open>
  \<^verbatim>\<open>datetime.fromtimestamp\<close> on a host whose local time is UTC: the wall clock shows
  the POSIX time, up to the end of the year 9999, the last a \<^verbatim>\<open>datetime\<close> can hold,
  and from the second day of the year 1 (CPython looks at the clock a day earlier to
  find out whether the time is in a fold, and raises when that day is before the year
  1). It is the host of most examples below; the theorems are about any host.
\<close>

definition utc_fromtimestamp :: "int \<Rightarrow> datetime option" where
  "utc_fromtimestamp t =
     (if - 62135510400 \<le> t \<and> t \<le> 253402300799 then Some (t * 1000000) else None)"


subsection \<open>Floats\<close>

text \<open>
  Rounding to the nearest double, ties to the even significand: a positive number
  between \<open>2 ^ e\<close> and \<open>2 ^ (e + 1)\<close> is rounded to a multiple of \<open>2 ^ (e - 52)\<close>.
  Overflow and subnormal numbers are left out: the numbers rounded here are counts of
  microseconds between two datetimes, divided by a million and by sixty.
\<close>

definition float_exponent :: "rat \<Rightarrow> int" where
  "float_exponent q =
     (if 1 \<le> q then int (floorlog 2 (nat \<lfloor>q\<rfloor>)) - 1
      else - int (floorlog 2 (nat (\<lceil>1 / q\<rceil> - 1))))"

definition round_half_even :: "rat \<Rightarrow> int" where
  "round_half_even x =
     (let f = \<lfloor>x\<rfloor>; d = x - of_int f in
      if d < 1 / 2 then f else if 1 / 2 < d then f + 1 else if even f then f else f + 1)"

definition round_double :: "rat \<Rightarrow> rat" where
  "round_double q =
     (if q = 0 then 0
      else (let u = 2 powi (float_exponent \<bar>q\<bar> - 52)
            in of_int (round_half_even (q / u)) * u))"

text \<open>
  \<^verbatim>\<open>timedelta.total_seconds()\<close> of a difference of two datetimes: the microseconds
  divided by a million, as a float.
\<close>

definition total_seconds :: "int \<Rightarrow> rat" where
  "total_seconds td = round_double (of_int td / 1000000)"

text \<open>Python's \<^verbatim>\<open>int(x)\<close> on a float: truncation towards zero.\<close>

definition py_int :: "rat \<Rightarrow> int" where
  "py_int x = (if x < 0 then \<lceil>x\<rceil> else \<lfloor>x\<rfloor>)"

text \<open>ATRTDB.py, lines 161-162; the division by 60 is a float division.\<close>

definition calc_mins_until :: "datetime \<Rightarrow> datetime \<Rightarrow> int" where
  "calc_mins_until dep_time now =
     (let mins_until = py_int (round_double (total_seconds (dep_time - now) / 60))
      in if mins_until < 0 then 0 else mins_until)"

subsection \<open>Departure entries\<close>

text \<open>
  The dictionaries appended to \<^verbatim>\<open>deps\<close>. The per-location scripts build the first five
  keys; the engine adds \<^verbatim>\<open>mins_until\<close>.
\<close>

record departure =
  route :: string
  headsign :: string
  time :: datetime
  delay :: int
  stop_id :: string

record board_departure = departure +
  mins_until :: int

subsection \<open>ATRTDB.get_departures, live path (lines 129-179)\<close>

text \<open>
  The loop over \<^verbatim>\<open>entity.trip_update.stop_time_update\<close>, lines 151-171. It ends with the
  list \<^verbatim>\<open>deps\<close> or with the exception that a statement of its body raises.
\<close>

fun stop_time_update_loop ::
  "(int \<Rightarrow> datetime option) \<Rightarrow> Location \<Rightarrow> datetime \<Rightarrow> TripDescriptor \<Rightarrow>
   StopTimeUpdate list \<Rightarrow> board_departure list \<Rightarrow> py_exception + board_departure list" where
  "stop_time_update_loop fromtimestamp location now trip [] deps = Inr deps"
| "stop_time_update_loop fromtimestamp location now trip (stu # rest) deps =
     (case stu_departure stu of
        None \<Rightarrow> stop_time_update_loop fromtimestamp location now trip rest deps
      | Some dep \<Rightarrow>
          if pb_str (stu_stop_id stu) \<in> set (stop_ids location) then
            (case fromtimestamp (pb_int (ste_time dep)) of
               None \<Rightarrow> Inl FromtimestampError
             | Some dep_time \<Rightarrow>
                 if dep_time > now then
                   (let delay = (case ste_delay dep of Some d \<Rightarrow> d | None \<Rightarrow> 0) in
                    case getattr_trip_headsign trip of
                      Inl exc \<Rightarrow> Inl exc
                    | Inr trip_headsign \<Rightarrow>
                        (let headsign = (if trip_headsign \<noteq> [] then trip_headsign else ''N/A'');
                             mins_until = calc_mins_until dep_time now
                         in stop_time_update_loop fromtimestamp location now trip rest
                              (deps @ [\<lparr>route = pb_str (trip_route_id trip),
                                        headsign = headsign, time = dep_time, delay = delay,
                                        stop_id = pb_str (stu_stop_id stu),
                                        mins_until = mins_until\<rparr>])))
                 else stop_time_update_loop fromtimestamp location now trip rest deps)
          else stop_time_update_loop fromtimestamp location now trip rest deps)"

text \<open>The loop over \<^verbatim>\<open>feed.entity\<close>, lines 141-171.\<close>

fun entity_loop ::
  "(int \<Rightarrow> datetime option) \<Rightarrow> Location \<Rightarrow> datetime \<Rightarrow> FeedEntity list \<Rightarrow>
   board_departure list \<Rightarrow> py_exception + board_departure list" where
  "entity_loop fromtimestamp location now [] deps = Inr deps"
| "entity_loop fromtimestamp location now (entity # rest) deps =
     (case entity_trip_update entity of
        None \<Rightarrow> entity_loop fromtimestamp location now rest deps
      | Some tu \<Rightarrow>
          (let trip = tu_trip tu; route_id = pb_str (trip_route_id trip) in
           if route_prefixes location \<noteq> [] \<and>
              \<not> list_ex (\<lambda>p. prefix p route_id) (route_prefixes location)
           then entity_loop fromtimestamp location now rest deps
           else (case stop_time_update_loop fromtimestamp location now trip
                        (tu_stop_time_update tu) deps of
                   Inl exc \<Rightarrow> Inl exc
                 | Inr deps' \<Rightarrow> entity_loop fromtimestamp location now rest deps')))"

text \<open>Lines 174-175: \<^verbatim>\<open>deps.sort(key=lambda x: x['time'])\<close>, a stable sort, and the slice.\<close>

definition sort_and_limit :: "nat \<Rightarrow> board_departure list \<Rightarrow> board_departure list" where
  "sort_and_limit max_departures deps = take max_departures (sort_key time deps)"

text \<open>
  What the function prints, lines 132 and 178, and what it returns. The handler of
  line 177 catches every exception of the \<^verbatim>\<open>try\<close> block.
\<close>

datatype console_line = Realtime_feed_failed int | Error_fetching_departures string

definition get_departures_run ::
  "(int \<Rightarrow> datetime option) \<Rightarrow> Location \<Rightarrow> http_result \<Rightarrow> datetime \<Rightarrow>
   console_line list \<times> board_departure list" where
  "get_departures_run fromtimestamp location resp now =
     (case resp of
        RequestFailed \<Rightarrow> ([Error_fetching_departures (name location)], [])
      | Response status_code content \<Rightarrow>
          if status_code \<noteq> 200 then ([Realtime_feed_failed status_code], [])
          else (case content of
                  Undecodable \<Rightarrow> ([Error_fetching_departures (name location)], [])
                | Feed entities \<Rightarrow>
                    (case entity_loop fromtimestamp location now entities [] of
                       Inl exc \<Rightarrow> ([Error_fetching_departures (name location)], [])
                     | Inr deps \<Rightarrow> ([], sort_and_limit MAX_DEPARTURES deps))))"

definition get_departures ::
  "(int \<Rightarrow> datetime option) \<Rightarrow> Location \<Rightarrow> http_result \<Rightarrow> datetime \<Rightarrow>
   board_departure list" where
  "get_departures fromtimestamp location resp now =
     snd (get_departures_run fromtimestamp location resp now)"

subsection \<open>The status column of ATRTDB.render_console_board (lines 230-239)\<close>

text \<open>
  The branch taken and the number of minutes shown: \<open>LATE m\<close> stands for the text
  \<^verbatim>\<open>{m}m LATE\<close>, \<open>EARLY m\<close> for \<^verbatim>\<open>{m}m EARLY\<close>, \<open>ON_TIME\<close> for \<^verbatim>\<open>ON TIME\<close>.
  Python's \<^verbatim>\<open>//\<close> on integers rounds towards minus infinity, as \<open>div\<close> does.
\<close>

datatype status = LATE int | EARLY int | ON_TIME

definition render_status :: "int \<Rightarrow> status" where
  "render_status delay_seconds =
     (let delay_mins = delay_seconds div 60 in
      if delay_mins > 2 then LATE delay_mins
      else if delay_mins < - 2 then EARLY (- delay_mins)
      else ON_TIME)"

subsection \<open>The per-location scripts\<close>

text \<open>
  \<^verbatim>\<open>RTDB_downtown.py\<close> and \<^verbatim>\<open>RTDB_Britomart.py\<close> have no exception handler: what
  \<^verbatim>\<open>requests.get\<close>, \<^verbatim>\<open>ParseFromString\<close> or a statement of the loops raises leaves
  \<^verbatim>\<open>get_departures\<close>. The parameter \<^verbatim>\<open>stop_ids\<close> is written \<open>stop_id_list\<close>.
\<close>

text \<open>
  The loop over the stop-time updates, the same text in both scripts
  (RTDB_downtown.py, lines 61-73; RTDB_Britomart.py, lines 60-72).
\<close>

fun script_stop_time_update_loop ::
  "(int \<Rightarrow> datetime option) \<Rightarrow> string list \<Rightarrow> datetime \<Rightarrow> TripDescriptor \<Rightarrow>
   StopTimeUpdate list \<Rightarrow> departure list \<Rightarrow> py_exception + departure list" where
  "script_stop_time_update_loop fromtimestamp stop_id_list now trip [] deps = Inr deps"
| "script_stop_time_update_loop fromtimestamp stop_id_list now trip (stu # rest) deps =
     (case stu_departure stu of
        None \<Rightarrow> script_stop_time_update_loop fromtimestamp stop_id_list now trip rest deps
      | Some dep \<Rightarrow>
          if pb_str (stu_stop_id stu) \<in> set stop_id_list then
            (case fromtimestamp (pb_int (ste_time dep)) of
               None \<Rightarrow> Inl FromtimestampError
             | Some dep_time \<Rightarrow>
                 if dep_time > now then
                   (let delay = pb_int (ste_delay dep) in
                    case getattr_trip_headsign trip of
                      Inl exc \<Rightarrow> Inl exc
                    | Inr trip_headsign \<Rightarrow>
                        (let headsign = (if trip_headsign \<noteq> [] then trip_headsign else ''N/A'')
                         in script_stop_time_update_loop fromtimestamp stop_id_list now trip rest
                              (deps @ [\<lparr>route = pb_str (trip_route_id trip),
                                        headsign = headsign, time = dep_time, delay = delay,
                                        stop_id = pb_str (stu_stop_id stu)\<rparr>])))
                 else script_stop_time_update_loop fromtimestamp stop_id_list now trip rest deps)
          else script_stop_time_update_loop fromtimestamp stop_id_list now trip rest deps)"

text \<open>RTDB_downtown.py, lines 23 and 44-76.\<close>

definition FERRY_ROUTE_PREFIXES :: "string list" where
  "FERRY_ROUTE_PREFIXES =
     [''BAYS-'', ''BIRK-'', ''KPHS-'', ''KPHM-'', ''PINE-'', ''RAK-'',
      ''RANG-'', ''TIRI-'', ''WSTH-'', ''MTIA-'', ''HMB-'']"

fun downtown_entity_loop ::
  "(int \<Rightarrow> datetime option) \<Rightarrow> string list \<Rightarrow> datetime \<Rightarrow> FeedEntity list \<Rightarrow>
   departure list \<Rightarrow> py_exception + departure list" where
  "downtown_entity_loop fromtimestamp stop_id_list now [] deps = Inr deps"
| "downtown_entity_loop fromtimestamp stop_id_list now (entity # rest) deps =
     (case entity_trip_update entity of
        None \<Rightarrow> downtown_entity_loop fromtimestamp stop_id_list now rest deps
      | Some tu \<Rightarrow>
          (let trip = tu_trip tu; route_id = pb_str (trip_route_id trip) in
           if list_ex (\<lambda>p. prefix p route_id) FERRY_ROUTE_PREFIXES
           then (case script_stop_time_update_loop fromtimestamp stop_id_list now trip
                        (tu_stop_time_update tu) deps of
                   Inl exc \<Rightarrow> Inl exc
                 | Inr deps' \<Rightarrow> downtown_entity_loop fromtimestamp stop_id_list now rest deps')
           else downtown_entity_loop fromtimestamp stop_id_list now rest deps))"

definition downtown_get_departures ::
  "(int \<Rightarrow> datetime option) \<Rightarrow> string list \<Rightarrow> http_result \<Rightarrow> datetime \<Rightarrow>
   py_exception + departure list" where
  "downtown_get_departures fromtimestamp stop_id_list resp now =
     (case resp of
        RequestFailed \<Rightarrow> Inl RequestException
      | Response status_code content \<Rightarrow>
          if status_code \<noteq> 200 then Inr []
          else (case content of
                  Undecodable \<Rightarrow> Inl DecodeError
                | Feed entities \<Rightarrow>
                    (case downtown_entity_loop fromtimestamp stop_id_list now entities [] of
                       Inl exc \<Rightarrow> Inl exc
                     | Inr deps \<Rightarrow> Inr (take 15 (sort_key time deps)))))"

text \<open>RTDB_Britomart.py, lines 44-75; the route filter is commented out there.\<close>

fun britomart_entity_loop ::
  "(int \<Rightarrow> datetime option) \<Rightarrow> string list \<Rightarrow> datetime \<Rightarrow> FeedEntity list \<Rightarrow>
   departure list \<Rightarrow> py_exception + departure list" where
  "britomart_entity_loop fromtimestamp stop_id_list now [] deps = Inr deps"
| "britomart_entity_loop fromtimestamp stop_id_list now (entity # rest) deps =
     (case entity_trip_update entity of
        None \<Rightarrow> britomart_entity_loop fromtimestamp stop_id_list now rest deps
      | Some tu \<Rightarrow>
          (case script_stop_time_update_loop fromtimestamp stop_id_list now (tu_trip tu)
                  (tu_stop_time_update tu) deps of
             Inl exc \<Rightarrow> Inl exc
           | Inr deps' \<Rightarrow> britomart_entity_loop fromtimestamp stop_id_list now rest deps'))"

definition britomart_get_departures ::
  "(int \<Rightarrow> datetime option) \<Rightarrow> string list \<Rightarrow> http_result \<Rightarrow> datetime \<Rightarrow>
   py_exception + departure list" where
  "britomart_get_departures fromtimestamp stop_id_list resp now =
     (case resp of
        RequestFailed \<Rightarrow> Inl RequestException
      | Response status_code content \<Rightarrow>
          if status_code \<noteq> 200 then Inr []
          else (case content of
                  Undecodable \<Rightarrow> Inl DecodeError
                | Feed entities \<Rightarrow>
                    (case britomart_entity_loop fromtimestamp stop_id_list now entities [] of
                       Inl exc \<Rightarrow> Inl exc
                     | Inr deps \<Rightarrow> Inr (take 15 (sort_key time deps)))))"

text \<open>
  The status column of \<^verbatim>\<open>print_board\<close> (RTDB_downtown.py, lines 84-85;
  RTDB_Britomart.py, lines 83-84): the same floor division, compared with zero.
\<close>

definition print_board_status :: "int \<Rightarrow> status" where
  "print_board_status delay_seconds =
     (let mins = delay_seconds div 60 in
      if mins > 0 then LATE mins else if mins < 0 then EARLY (- mins) else ON_TIME)"

subsection \<open>A feed with one departure\<close>

text \<open>
  One trip update on route 64-X with one event at stop A, due ten minutes after
  \<open>scenario_now\<close> and 200 seconds late, for a board of stop A that lists the routes
  starting with 64-. The reference time is the wall clock of a host on UTC at POSIX
  time 1700000000.
\<close>

definition scenario_location :: Location where
  "scenario_location =
     \<lparr>name = ''Britomart Bus Hub'', search_term = ''Britomart'', mode = BUS,
      route_prefixes = [''64-''], stop_ids = [''A'']\<rparr>"

definition scenario_now :: datetime where
  "scenario_now = 1700000000000000"

definition scenario_event :: StopTimeUpdate where
  "scenario_event =
     \<lparr>stu_stop_id = Some ''A'',
      stu_departure = Some \<lparr>ste_time = Some 1700000600, ste_delay = Some 200\<rparr>\<rparr>"

definition scenario_trip :: TripDescriptor where
  "scenario_trip = \<lparr>trip_route_id = Some ''64-X''\<rparr>"

definition scenario_feed :: "FeedEntity list" where
  "scenario_feed =
     [\<lparr>entity_trip_update =
         Some \<lparr>tu_trip = scenario_trip, tu_stop_time_update = [scenario_event]\<rparr>\<rparr>]"

text \<open>
  The same event on another route or at another stop, and a board of stops A and B that
  lists the routes starting with 64-.
\<close>

definition one_event_feed :: "string \<Rightarrow> string \<Rightarrow> FeedEntity list" where
  "one_event_feed route_id stop =
     [\<lparr>entity_trip_update =
         Some \<lparr>tu_trip = \<lparr>trip_route_id = Some route_id\<rparr>,
               tu_stop_time_update =
                 [\<lparr>stu_stop_id = Some stop,
                   stu_departure =
                     Some \<lparr>ste_time = Some 1700000600, ste_delay = Some 200\<rparr>\<rparr>]\<rparr>\<rparr>]"

definition filter_location :: Location where
  "filter_location =
     \<lparr>name = ''Britomart Bus Hub'', search_term = ''Britomart'', mode = BUS,
      route_prefixes = [''64-''], stop_ids = [''A'', ''B'']\<rparr>"

subsection \<open>Entities on a listed route\<close>

text \<open>
  A feed entity that the test of lines 147-149 does not skip, for a board whose list of
  route prefixes is not empty: it has no trip update, or its route starts with a listed
  prefix.
\<close>

definition on_listed_route :: "Location \<Rightarrow> FeedEntity \<Rightarrow> bool" where
  "on_listed_route l en =
     (case entity_trip_update en of
        None \<Rightarrow> True
      | Some tu \<Rightarrow> list_ex (\<lambda>p. prefix p (pb_str (trip_route_id (tu_trip tu)))) (route_prefixes l))"

subsection \<open>The engine's outcome without the minutes\<close>

text \<open>
  The outcome of the engine's loops as the scripts would have it: the same exception, or
  the entries without \<^verbatim>\<open>mins_until\<close>.
\<close>

definition without_mins_until ::
  "py_exception + board_departure list \<Rightarrow> py_exception + departure list" where
  "without_mins_until outcome =
     (case outcome of Inl exc \<Rightarrow> Inl exc | Inr deps \<Rightarrow> Inr (map departure.truncate deps))"

section \<open>The loops\<close>

text \<open>
  One step of each loop. The read of the headsign raises, so a step either raises or
  goes on with \<^verbatim>\<open>deps\<close> as it was.
\<close>

lemma stu_loop_step:
  "stop_time_update_loop f l n t (stu # rest) deps =
     (case stu_departure stu of
        None \<Rightarrow> stop_time_update_loop f l n t rest deps
      | Some dep \<Rightarrow>
          if pb_str (stu_stop_id stu) \<in> set (stop_ids l) then
            (case f (pb_int (ste_time dep)) of
               None \<Rightarrow> Inl FromtimestampError
             | Some dep_time \<Rightarrow>
                 if n < dep_time then Inl AttributeError
                 else stop_time_update_loop f l n t rest deps)
          else stop_time_update_loop f l n t rest deps)"
  by (simp add: getattr_trip_headsign_def Let_def split: option.splits)

lemma stu_loop_adds_nothing:
  "stop_time_update_loop f l n t stus deps = Inr deps' \<Longrightarrow> deps' = deps"
proof (induction stus)
  case Nil
  then show ?case by simp
next
  case (Cons stu rest)
  from Cons.prems have "stop_time_update_loop f l n t rest deps = Inr deps'"
    unfolding stu_loop_step by (simp split: option.splits if_splits)
  then show ?case by (rule Cons.IH)
qed

lemma entity_loop_step:
  "entity_loop f l n (en # rest) deps =
     (case entity_trip_update en of
        None \<Rightarrow> entity_loop f l n rest deps
      | Some tu \<Rightarrow>
          if route_prefixes l \<noteq> [] \<and>
             \<not> (\<exists>p \<in> set (route_prefixes l). prefix p (pb_str (trip_route_id (tu_trip tu))))
          then entity_loop f l n rest deps
          else (case stop_time_update_loop f l n (tu_trip tu) (tu_stop_time_update tu) deps of
                  Inl exc \<Rightarrow> Inl exc
                | Inr deps' \<Rightarrow> entity_loop f l n rest deps))"
proof (cases "entity_trip_update en")
  case None
  then show ?thesis by simp
next
  case (Some tu)
  have "(case stop_time_update_loop f l n (tu_trip tu) (tu_stop_time_update tu) deps of
           Inl exc \<Rightarrow> Inl exc | Inr deps' \<Rightarrow> entity_loop f l n rest deps') =
        (case stop_time_update_loop f l n (tu_trip tu) (tu_stop_time_update tu) deps of
           Inl exc \<Rightarrow> Inl exc | Inr deps' \<Rightarrow> entity_loop f l n rest deps)"
    by (auto split: sum.splits dest: stu_loop_adds_nothing)
  with Some show ?thesis by (simp add: Let_def list_ex_iff)
qed

lemma entity_loop_adds_nothing:
  "entity_loop f l n es deps = Inr deps' \<Longrightarrow> deps' = deps"
proof (induction es)
  case Nil
  then show ?case by simp
next
  case (Cons en rest)
  from Cons.prems have "entity_loop f l n rest deps = Inr deps'"
    unfolding entity_loop_step by (simp split: option.splits if_splits sum.splits)
  then show ?case by (rule Cons.IH)
qed

lemma get_departures_nil: "get_departures f l r n = []"
proof -
  have "sort_and_limit MAX_DEPARTURES deps = []"
    if "entity_loop f l n es [] = Inr deps" for es deps
    using entity_loop_adds_nothing[OF that] by (simp add: sort_and_limit_def)
  then show ?thesis
    by (auto simp: get_departures_def get_departures_run_def
        split: http_result.splits payload.splits sum.splits)
qed


section \<open>Departure extraction\<close>



section \<open>The stop and route filter\<close>



section \<open>The headsign of a trip\<close>

text \<open>
  C8. The feed with one departure, which passes every test of the loop: the read of the
  trip's headsign raises, so the engine prints its error line and returns no entry, and
  the Britomart script ends with the exception. No entry with the delay 200 and a
  headsign comes out.
\<close>

theorem headsign_read_raises:
  "entity_loop utc_fromtimestamp scenario_location scenario_now scenario_feed [] =
     Inl AttributeError
   \<and> get_departures_run utc_fromtimestamp scenario_location (Response 200 (Feed scenario_feed))
       scenario_now = ([Error_fetching_departures ''Britomart Bus Hub''], [])
   \<and> get_departures utc_fromtimestamp scenario_location (Response 200 (Feed scenario_feed))
       scenario_now = []
   \<and> britomart_get_departures utc_fromtimestamp [''A''] (Response 200 (Feed scenario_feed))
       scenario_now = Inl AttributeError"
  by (simp add: get_departures_def britomart_get_departures_def get_departures_run_def
      getattr_trip_headsign_def Let_def scenario_location_def scenario_feed_def scenario_trip_def
      scenario_event_def scenario_now_def utc_fromtimestamp_def pb_str_def pb_int_def)

section \<open>Ranking and truncation\<close>

text \<open>
  C5. The sorted and truncated list has at most as many entries as the bound, and for a
  bound k it is the first k entries of the list sorted and truncated at its own length,
  which is the whole list sorted by departure time. What get_departures returns has at
  most MAX_DEPARTURES entries.
\<close>

theorem rank_prefix_bound:
  "length (sort_and_limit k deps) \<le> k
   \<and> sort_and_limit k deps = take k (sort_and_limit (length deps) deps)
   \<and> sort_and_limit (length deps) deps = sort_key time deps
   \<and> length (get_departures fromtimestamp location resp now) \<le> MAX_DEPARTURES"
proof -
  have "length (get_departures fromtimestamp location resp now) \<le> MAX_DEPARTURES"
    by (simp add: get_departures_def get_departures_run_def sort_and_limit_def
        split: http_result.splits payload.splits sum.splits)
  then show ?thesis
    by (simp add: sort_and_limit_def)
qed

text \<open>
  Python's \<^verbatim>\<open>list.sort\<close> is stable, and a stable sort by a key has one possible result:
  any rearrangement of the list that is ascending in the key and keeps the order among
  equal keys is the result of \<open>sort_key\<close>.
\<close>

lemma stable_sort_unique:
  assumes "mset ys = mset deps" and "sorted (map time ys)"
    and "\<And>t. filter (\<lambda>e. time e = t) ys = filter (\<lambda>e. time e = t) deps"
  shows "sort_key time deps = ys"
proof (rule properties_for_sort_key)
  show "mset ys = mset deps" by (rule assms(1))
  show "sorted (map time ys)" by (rule assms(2))
  fix k assume "k \<in> set ys"
  from assms(3)[of "time k"]
  show "filter (\<lambda>x. time k = time x) ys = filter (\<lambda>x. time k = time x) deps"
    by (simp add: eq_commute)
qed

lemma sorted_take_map: "sorted (map f xs) \<Longrightarrow> sorted (map f (take k xs))"
  by (simp add: take_map[symmetric] sorted_wrt_take)

text \<open>
  C6. The result is ascending in the departure time, it is a rearrangement of the input
  when nothing is cut off, and entries with the same departure time keep the order in
  which they were collected: for every time, the entries of the result with that time
  are the first ones, in their order, of the input entries with that time. Sorting the
  sorted list again changes nothing. For example, of two entries due at the same time
  the one collected first stays first, whatever the routes are.
\<close>

theorem rank_sorted_stable:
  "sorted (map time (sort_and_limit k deps))
   \<and> mset (sort_and_limit (length deps) deps) = mset deps
   \<and> filter (\<lambda>e. time e = t) (sort_and_limit (length deps) deps) = filter (\<lambda>e. time e = t) deps
   \<and> prefix (filter (\<lambda>e. time e = t) (sort_and_limit k deps)) (filter (\<lambda>e. time e = t) deps)
   \<and> sort_and_limit k (sort_and_limit (length deps) deps) = sort_and_limit k deps
   \<and> sort_and_limit 10
         [\<lparr>route = ''B'', headsign = ''N/A'', time = 5, delay = 0, stop_id = ''A'', mins_until = 0\<rparr>,
          \<lparr>route = ''Z'', headsign = ''N/A'', time = 3, delay = 0, stop_id = ''A'', mins_until = 0\<rparr>,
          \<lparr>route = ''A'', headsign = ''N/A'', time = 5, delay = 0, stop_id = ''A'', mins_until = 0\<rparr>]
       = [\<lparr>route = ''Z'', headsign = ''N/A'', time = 3, delay = 0, stop_id = ''A'', mins_until = 0\<rparr>,
          \<lparr>route = ''B'', headsign = ''N/A'', time = 5, delay = 0, stop_id = ''A'', mins_until = 0\<rparr>,
          \<lparr>route = ''A'', headsign = ''N/A'', time = 5, delay = 0, stop_id = ''A'', mins_until = 0\<rparr>]"
proof (intro conjI)
  show "sorted (map time (sort_and_limit k deps))"
    unfolding sort_and_limit_def by (rule sorted_take_map) simp
  show "mset (sort_and_limit (length deps) deps) = mset deps"
    by (simp add: sort_and_limit_def)
  show "filter (\<lambda>e. time e = t) (sort_and_limit (length deps) deps) = filter (\<lambda>e. time e = t) deps"
    by (simp add: sort_and_limit_def sort_key_stable)
  have "prefix (filter (\<lambda>e. time e = t) (take k (sort_key time deps)))
      (filter (\<lambda>e. time e = t) (sort_key time deps))"
    by (rule filter_mono_prefix) (rule take_is_prefix)
  then show "prefix (filter (\<lambda>e. time e = t) (sort_and_limit k deps)) (filter (\<lambda>e. time e = t) deps)"
    by (simp add: sort_and_limit_def sort_key_stable)
  have "sort_key time (sort_key time deps) = sort_key time deps"
    by (rule sort_key_id_if_sorted) simp
  then show "sort_and_limit k (sort_and_limit (length deps) deps) = sort_and_limit k deps"
    by (simp add: sort_and_limit_def)
  show "sort_and_limit 10
         [\<lparr>route = ''B'', headsign = ''N/A'', time = 5, delay = 0, stop_id = ''A'', mins_until = 0\<rparr>,
          \<lparr>route = ''Z'', headsign = ''N/A'', time = 3, delay = 0, stop_id = ''A'', mins_until = 0\<rparr>,
          \<lparr>route = ''A'', headsign = ''N/A'', time = 5, delay = 0, stop_id = ''A'', mins_until = 0\<rparr>]
       = [\<lparr>route = ''Z'', headsign = ''N/A'', time = 3, delay = 0, stop_id = ''A'', mins_until = 0\<rparr>,
          \<lparr>route = ''B'', headsign = ''N/A'', time = 5, delay = 0, stop_id = ''A'', mins_until = 0\<rparr>,
          \<lparr>route = ''A'', headsign = ''N/A'', time = 5, delay = 0, stop_id = ''A'', mins_until = 0\<rparr>]"
    by (simp add: sort_and_limit_def)
qed

section \<open>A feed that does not decode\<close>

text \<open>
  C4, as stated, fails: the value returned for a body that does not decode is the value
  returned for a feed in which no trip matches.
\<close>

theorem decode_failure_counterexample:
  "get_departures utc_fromtimestamp filter_location (Response 200 Undecodable) scenario_now = []
   \<and> get_departures utc_fromtimestamp filter_location
         (Response 200 (Feed (one_event_feed ''65-X'' ''A''))) scenario_now = []
   \<and> get_departures utc_fromtimestamp filter_location (Response 200 Undecodable) scenario_now =
       get_departures utc_fromtimestamp filter_location
         (Response 200 (Feed (one_event_feed ''65-X'' ''A''))) scenario_now"
  by (simp add: get_departures_nil)

text \<open>
  C4, amended. For a body that does not decode, the engine's get_departures prints an
  error line and returns the empty list, and the process goes on; the empty list is
  also what it returns for a feed without entities, where it prints nothing. So the two
  cases differ in the printed line only, not in the value the caller receives. In the
  per-location scripts the decode error leaves get_departures as an exception.
\<close>

theorem decode_failure_result:
  "get_departures fromtimestamp location (Response 200 Undecodable) now = []
   \<and> get_departures fromtimestamp location (Response 200 (Feed [])) now = []
   \<and> get_departures_run fromtimestamp location (Response 200 Undecodable) now =
        ([Error_fetching_departures (name location)], [])
   \<and> get_departures_run fromtimestamp location (Response 200 (Feed [])) now = ([], [])
   \<and> britomart_get_departures fromtimestamp stop_id_list (Response 200 Undecodable) now =
        Inl DecodeError
   \<and> downtown_get_departures fromtimestamp stop_id_list (Response 200 Undecodable) now =
        Inl DecodeError"
  by (simp add: get_departures_def get_departures_run_def sort_and_limit_def
      britomart_get_departures_def downtown_get_departures_def)

section \<open>The engine and the per-location scripts\<close>

lemma without_mins_until_simps:
  "without_mins_until (Inl exc) = Inl exc"
  "without_mins_until (Inr deps) = Inr (map departure.truncate deps)"
  by (simp_all add: without_mins_until_def)

lemma truncate_entry:
  "departure.truncate \<lparr>route = r, headsign = h, time = t, delay = d, stop_id = s,
      mins_until = m\<rparr> = \<lparr>route = r, headsign = h, time = t, delay = d, stop_id = s\<rparr>"
  by (simp add: departure.truncate_def)

lemma time_truncate: "time (departure.truncate e) = time e"
  by (simp add: departure.truncate_def)

lemma script_stu_loop_truncate:
  "without_mins_until (stop_time_update_loop f l n t stus deps) =
     script_stop_time_update_loop f (stop_ids l) n t stus (map departure.truncate deps)"
proof (induction stus arbitrary: deps)
  case Nil
  show ?case by (simp add: without_mins_until_simps)
next
  case (Cons stu rest)
  show ?case
    by (cases "stu_departure stu")
       (simp_all add: Cons.IH Let_def truncate_entry pb_int_def without_mins_until_simps
          split: option.splits sum.splits)
qed

lemma downtown_loop_truncate:
  assumes "route_prefixes l = FERRY_ROUTE_PREFIXES"
  shows "without_mins_until (entity_loop f l n es deps) =
     downtown_entity_loop f (stop_ids l) n es (map departure.truncate deps)"
proof (induction es arbitrary: deps)
  case Nil
  show ?case by (simp add: without_mins_until_simps)
next
  case (Cons en rest)
  have ne: "FERRY_ROUTE_PREFIXES \<noteq> []" by (simp add: FERRY_ROUTE_PREFIXES_def)
  show ?case
  proof (cases "entity_trip_update en")
    case None
    then show ?thesis by (simp add: Cons.IH)
  next
    case (Some tu)
    show ?thesis
    proof (cases "list_ex (\<lambda>p. prefix p (pb_str (trip_route_id (tu_trip tu)))) FERRY_ROUTE_PREFIXES")
      case False
      with Some show ?thesis by (simp add: Cons.IH Let_def assms ne)
    next
      case True
      show ?thesis
      proof (cases "stop_time_update_loop f l n (tu_trip tu) (tu_stop_time_update tu) deps")
        case (Inl exc)
        with script_stu_loop_truncate[of f l n "tu_trip tu" "tu_stop_time_update tu" deps]
        have "script_stop_time_update_loop f (stop_ids l) n (tu_trip tu) (tu_stop_time_update tu)
            (map departure.truncate deps) = Inl exc"
          by (simp add: without_mins_until_simps)
        with Some True Inl show ?thesis by (simp add: Let_def assms ne without_mins_until_simps)
      next
        case (Inr deps')
        with script_stu_loop_truncate[of f l n "tu_trip tu" "tu_stop_time_update tu" deps]
        have "script_stop_time_update_loop f (stop_ids l) n (tu_trip tu) (tu_stop_time_update tu)
            (map departure.truncate deps) = Inr (map departure.truncate deps')"
          by (simp add: without_mins_until_simps)
        with Some True Inr show ?thesis by (simp add: Let_def assms ne Cons.IH)
      qed
    qed
  qed
qed

lemma britomart_loop_truncate:
  assumes "route_prefixes l = []"
  shows "without_mins_until (entity_loop f l n es deps) =
     britomart_entity_loop f (stop_ids l) n es (map departure.truncate deps)"
proof (induction es arbitrary: deps)
  case Nil
  show ?case by (simp add: without_mins_until_simps)
next
  case (Cons en rest)
  show ?case
  proof (cases "entity_trip_update en")
    case None
    then show ?thesis by (simp add: Cons.IH)
  next
    case (Some tu)
    show ?thesis
    proof (cases "stop_time_update_loop f l n (tu_trip tu) (tu_stop_time_update tu) deps")
      case (Inl exc)
      with script_stu_loop_truncate[of f l n "tu_trip tu" "tu_stop_time_update tu" deps]
      have "script_stop_time_update_loop f (stop_ids l) n (tu_trip tu) (tu_stop_time_update tu)
          (map departure.truncate deps) = Inl exc"
        by (simp add: without_mins_until_simps)
      with Some Inl show ?thesis by (simp add: Let_def assms without_mins_until_simps)
    next
      case (Inr deps')
      with script_stu_loop_truncate[of f l n "tu_trip tu" "tu_stop_time_update tu" deps]
      have "script_stop_time_update_loop f (stop_ids l) n (tu_trip tu) (tu_stop_time_update tu)
          (map departure.truncate deps) = Inr (map departure.truncate deps')"
        by (simp add: without_mins_until_simps)
      with Some Inr show ?thesis by (simp add: Let_def assms Cons.IH)
    qed
  qed
qed

lemma insort_key_truncate:
  "map departure.truncate (insort_key time x xs) =
     insort_key time (departure.truncate x) (map departure.truncate xs)"
  by (induction xs) (simp_all add: time_truncate)

lemma sort_key_truncate:
  "map departure.truncate (sort_key time xs) = sort_key time (map departure.truncate xs)"
  by (induction xs) (simp_all add: insort_key_truncate)

lemma stu_loop_prefixes:
  "stop_time_update_loop f (l\<lparr>route_prefixes := ps\<rparr>) n t stus deps =
     stop_time_update_loop f l n t stus deps"
  by (induction stus arbitrary: deps)
     (simp_all add: Let_def split: option.splits sum.splits)

lemma entity_loop_listed:
  assumes "route_prefixes l \<noteq> []"
  shows "entity_loop f l n es deps =
     entity_loop f (l\<lparr>route_prefixes := []\<rparr>) n (filter (on_listed_route l) es) deps"
proof (induction es arbitrary: deps)
  case Nil
  show ?case by simp
next
  case (Cons en rest)
  show ?case
    by (cases "entity_trip_update en")
       (simp_all add: Cons.IH Let_def assms on_listed_route_def stu_loop_prefixes
          split: sum.splits)
qed

lemma engine_script_top:
  assumes sim: "without_mins_until (entity_loop f l n es []) = script_loop"
    and nm: "name l = nm"
  shows "(case (case script_loop of Inl exc \<Rightarrow> Inl exc
                | Inr deps \<Rightarrow> Inr (take 15 (sort_key time deps))) of
       Inl exc \<Rightarrow>
         get_departures_run f l (Response 200 (Feed es)) n =
           ([Error_fetching_departures nm], [])
     | Inr ys \<Rightarrow>
         fst (get_departures_run f l (Response 200 (Feed es)) n) = [] \<and>
         map departure.truncate (get_departures f l (Response 200 (Feed es)) n) =
           take MAX_DEPARTURES ys)"
proof (cases "entity_loop f l n es []")
  case (Inl exc)
  with sim have "script_loop = Inl exc" by (simp add: without_mins_until_simps)
  with Inl nm show ?thesis by (simp add: get_departures_run_def)
next
  case (Inr deps)
  with sim have s: "script_loop = Inr (map departure.truncate deps)"
    by (simp add: without_mins_until_simps)
  have "map departure.truncate (take MAX_DEPARTURES (sort_key time deps)) =
      take MAX_DEPARTURES (map departure.truncate (sort_key time deps))"
    by (simp only: take_map)
  then have "map departure.truncate (take MAX_DEPARTURES (sort_key time deps)) =
      take MAX_DEPARTURES (take 15 (sort_key time (map departure.truncate deps)))"
    by (simp add: sort_key_truncate MAX_DEPARTURES_def)
  with Inr s show ?thesis
    by (simp add: get_departures_def get_departures_run_def sort_and_limit_def)
qed

text \<open>
  C9, as stated, fails. For a ferry departure at a stop of the board, RTDB_downtown's
  get_departures ends with the exception of the headsign read, while the engine prints
  its error line and returns the empty list. For a departure of route 105-202 at a
  Britomart stop, RTDB_Britomart's get_departures, whose route filter is commented out,
  gets as far as the headsign read and ends with its exception, while the engine's
  Britomart board passes the trip over, prints nothing and returns the empty list.
\<close>

theorem engine_scripts_counterexample:
  "downtown_get_departures utc_fromtimestamp [''A'']
       (Response 200 (Feed (one_event_feed ''BAYS-1'' ''A''))) scenario_now = Inl AttributeError
   \<and> get_departures_run utc_fromtimestamp (Downtown_Ferry_Terminal\<lparr>stop_ids := [''A'']\<rparr>)
       (Response 200 (Feed (one_event_feed ''BAYS-1'' ''A''))) scenario_now =
       ([Error_fetching_departures ''Downtown Ferry Terminal''], [])
   \<and> britomart_get_departures utc_fromtimestamp [''A'']
       (Response 200 (Feed (one_event_feed ''105-202'' ''A''))) scenario_now = Inl AttributeError
   \<and> get_departures_run utc_fromtimestamp (Britomart_Bus_Hub\<lparr>stop_ids := [''A'']\<rparr>)
       (Response 200 (Feed (one_event_feed ''105-202'' ''A''))) scenario_now = ([], [])"
  by (simp add: downtown_get_departures_def britomart_get_departures_def get_departures_run_def
      getattr_trip_headsign_def Let_def one_event_feed_def scenario_now_def
      utc_fromtimestamp_def pb_str_def pb_int_def FERRY_ROUTE_PREFIXES_def
      Downtown_Ferry_Terminal_def Britomart_Bus_Hub_def sort_and_limit_def)

text \<open>
  C9, amended. For every decoded feed, every list of stops and every host: where
  RTDB_downtown's get_departures returns a list, the engine's get_departures for the
  Downtown Ferry Terminal board prints nothing and returns, without the minutes until
  departure, the first MAX_DEPARTURES entries of that list; where the script ends with
  an exception, the engine prints its error line and returns the empty list. The same
  holds of RTDB_Britomart run on the feed restricted to the entities on a listed route
  and the engine's Britomart board, and of RTDB_Britomart run on the whole feed and the
  engine run on the Britomart board with an empty list of route prefixes.
\<close>

theorem engine_matches_scripts:
  "(case downtown_get_departures fromtimestamp stop_id_list (Response 200 (Feed entities)) now of
      Inl exc \<Rightarrow>
        get_departures_run fromtimestamp (Downtown_Ferry_Terminal\<lparr>stop_ids := stop_id_list\<rparr>)
          (Response 200 (Feed entities)) now =
          ([Error_fetching_departures (name Downtown_Ferry_Terminal)], [])
    | Inr ys \<Rightarrow>
        fst (get_departures_run fromtimestamp
               (Downtown_Ferry_Terminal\<lparr>stop_ids := stop_id_list\<rparr>)
               (Response 200 (Feed entities)) now) = [] \<and>
        map departure.truncate
          (get_departures fromtimestamp (Downtown_Ferry_Terminal\<lparr>stop_ids := stop_id_list\<rparr>)
             (Response 200 (Feed entities)) now) = take MAX_DEPARTURES ys)
   \<and> (case britomart_get_departures fromtimestamp stop_id_list
            (Response 200 (Feed (filter (on_listed_route Britomart_Bus_Hub) entities))) now of
      Inl exc \<Rightarrow>
        get_departures_run fromtimestamp (Britomart_Bus_Hub\<lparr>stop_ids := stop_id_list\<rparr>)
          (Response 200 (Feed entities)) now =
          ([Error_fetching_departures (name Britomart_Bus_Hub)], [])
    | Inr ys \<Rightarrow>
        fst (get_departures_run fromtimestamp (Britomart_Bus_Hub\<lparr>stop_ids := stop_id_list\<rparr>)
               (Response 200 (Feed entities)) now) = [] \<and>
        map departure.truncate
          (get_departures fromtimestamp (Britomart_Bus_Hub\<lparr>stop_ids := stop_id_list\<rparr>)
             (Response 200 (Feed entities)) now) = take MAX_DEPARTURES ys)
   \<and> (case britomart_get_departures fromtimestamp stop_id_list
            (Response 200 (Feed entities)) now of
      Inl exc \<Rightarrow>
        get_departures_run fromtimestamp
          (Britomart_Bus_Hub\<lparr>route_prefixes := [], stop_ids := stop_id_list\<rparr>)
          (Response 200 (Feed entities)) now =
          ([Error_fetching_departures (name Britomart_Bus_Hub)], [])
    | Inr ys \<Rightarrow>
        fst (get_departures_run fromtimestamp
               (Britomart_Bus_Hub\<lparr>route_prefixes := [], stop_ids := stop_id_list\<rparr>)
               (Response 200 (Feed entities)) now) = [] \<and>
        map departure.truncate
          (get_departures fromtimestamp
             (Britomart_Bus_Hub\<lparr>route_prefixes := [], stop_ids := stop_id_list\<rparr>)
             (Response 200 (Feed entities)) now) = take MAX_DEPARTURES ys)"
proof (intro conjI)
  let ?d = "Downtown_Ferry_Terminal\<lparr>stop_ids := stop_id_list\<rparr>"
  have "route_prefixes ?d = FERRY_ROUTE_PREFIXES"
    by (simp add: Downtown_Ferry_Terminal_def FERRY_ROUTE_PREFIXES_def)
  from downtown_loop_truncate[OF this, of fromtimestamp now entities "[]"]
  have "without_mins_until (entity_loop fromtimestamp ?d now entities []) =
      downtown_entity_loop fromtimestamp stop_id_list now entities []"
    by simp
  moreover have "name ?d = name Downtown_Ferry_Terminal" by simp
  ultimately have "without_mins_until (entity_loop fromtimestamp ?d now entities []) =
      downtown_entity_loop fromtimestamp stop_id_list now entities [] \<and>
      name ?d = name Downtown_Ferry_Terminal" by simp
  from engine_script_top[OF conjunct1[OF this] conjunct2[OF this]]
  show "case downtown_get_departures fromtimestamp stop_id_list (Response 200 (Feed entities)) now of
      Inl exc \<Rightarrow>
        get_departures_run fromtimestamp ?d (Response 200 (Feed entities)) now =
          ([Error_fetching_departures (name Downtown_Ferry_Terminal)], [])
    | Inr ys \<Rightarrow>
        fst (get_departures_run fromtimestamp ?d (Response 200 (Feed entities)) now) = [] \<and>
        map departure.truncate
          (get_departures fromtimestamp ?d (Response 200 (Feed entities)) now) =
          take MAX_DEPARTURES ys"
    by (simp add: downtown_get_departures_def)
next
  let ?b = "Britomart_Bus_Hub\<lparr>stop_ids := stop_id_list\<rparr>"
  let ?es = "filter (on_listed_route Britomart_Bus_Hub) entities"
  have ne: "route_prefixes ?b \<noteq> []"
    by (simp add: Britomart_Bus_Hub_def)
  have same: "on_listed_route ?b = on_listed_route Britomart_Bus_Hub"
    by (rule ext) (simp add: on_listed_route_def split: option.splits)
  have "route_prefixes (?b\<lparr>route_prefixes := []\<rparr>) = []"
    by simp
  from britomart_loop_truncate[OF this, of fromtimestamp now ?es "[]"]
  have "without_mins_until (entity_loop fromtimestamp (?b\<lparr>route_prefixes := []\<rparr>) now ?es []) =
      britomart_entity_loop fromtimestamp stop_id_list now ?es []"
    by simp
  with entity_loop_listed[OF ne, of fromtimestamp now entities "[]"] same
  have "without_mins_until (entity_loop fromtimestamp ?b now entities []) =
      britomart_entity_loop fromtimestamp stop_id_list now ?es []"
    by simp
  moreover have "name ?b = name Britomart_Bus_Hub" by simp
  ultimately have "without_mins_until (entity_loop fromtimestamp ?b now entities []) =
      britomart_entity_loop fromtimestamp stop_id_list now ?es [] \<and>
      name ?b = name Britomart_Bus_Hub" by simp
  from engine_script_top[OF conjunct1[OF this] conjunct2[OF this]]
  show "case britomart_get_departures fromtimestamp stop_id_list (Response 200 (Feed ?es)) now of
      Inl exc \<Rightarrow>
        get_departures_run fromtimestamp ?b (Response 200 (Feed entities)) now =
          ([Error_fetching_departures (name Britomart_Bus_Hub)], [])
    | Inr ys \<Rightarrow>
        fst (get_departures_run fromtimestamp ?b (Response 200 (Feed entities)) now) = [] \<and>
        map departure.truncate
          (get_departures fromtimestamp ?b (Response 200 (Feed entities)) now) =
          take MAX_DEPARTURES ys"
    by (simp add: britomart_get_departures_def)
next
  let ?b = "Britomart_Bus_Hub\<lparr>route_prefixes := [], stop_ids := stop_id_list\<rparr>"
  have "route_prefixes ?b = []"
    by simp
  from britomart_loop_truncate[OF this, of fromtimestamp now entities "[]"]
  have "without_mins_until (entity_loop fromtimestamp ?b now entities []) =
      britomart_entity_loop fromtimestamp stop_id_list now entities []"
    by simp
  moreover have "name ?b = name Britomart_Bus_Hub" by simp
  ultimately have "without_mins_until (entity_loop fromtimestamp ?b now entities []) =
      britomart_entity_loop fromtimestamp stop_id_list now entities [] \<and>
      name ?b = name Britomart_Bus_Hub" by simp
  from engine_script_top[OF conjunct1[OF this] conjunct2[OF this]]
  show "case britomart_get_departures fromtimestamp stop_id_list (Response 200 (Feed entities)) now of
      Inl exc \<Rightarrow>
        get_departures_run fromtimestamp ?b (Response 200 (Feed entities)) now =
          ([Error_fetching_departures (name Britomart_Bus_Hub)], [])
    | Inr ys \<Rightarrow>
        fst (get_departures_run fromtimestamp ?b (Response 200 (Feed entities)) now) = [] \<and>
        map departure.truncate
          (get_departures fromtimestamp ?b (Response 200 (Feed entities)) now) =
          take MAX_DEPARTURES ys"
    by (simp add: britomart_get_departures_def)
qed

section \<open>Minutes until departure\<close>



text \<open>Rounding to an integer, and to a double.\<close>

lemma round_half_even_floor: "\<lfloor>x\<rfloor> \<le> round_half_even x \<and> round_half_even x \<le> \<lfloor>x\<rfloor> + 1"
  by (simp add: round_half_even_def Let_def)


lemma round_half_even_ge_int: "of_int n \<le> x \<Longrightarrow> n \<le> round_half_even x"
proof -
  assume "of_int n \<le> x"
  then have "n \<le> \<lfloor>x\<rfloor>" by (simp add: le_floor_iff)
  with round_half_even_floor[of x] show ?thesis by linarith
qed


lemma ulp_pos: "(0::rat) < 2 powi (float_exponent q - 52)"
  by simp

lemma round_double_nonneg: "0 \<le> q \<Longrightarrow> 0 \<le> round_double q"
proof -
  assume q: "0 \<le> q"
  let ?u = "(2::rat) powi (float_exponent \<bar>q\<bar> - 52)"
  have u: "0 < ?u" by simp
  from q u have "of_int 0 \<le> q / ?u" by simp
  then have "0 \<le> round_half_even (q / ?u)" by (rule round_half_even_ge_int)
  with u show ?thesis
    by (simp add: round_double_def Let_def)
qed














section \<open>Delay classification\<close>

lemma div60_gt2: "(2 < (d::int) div 60) = (180 \<le> d)"
  by presburger

lemma div60_lt_m2: "((d::int) div 60 < - 2) = (d \<le> - 121)"
  by presburger

text \<open>
  C2. The status shown for a departure depends on its delay in seconds alone: with the
  delay in minutes being the delay in seconds divided by 60 (rounding down), the status
  is LATE when the minutes exceed 2, EARLY when they are below -2, and ON TIME
  otherwise. So 181 seconds is LATE, -181 seconds is EARLY, and 90 and -90 seconds are
  both ON TIME.
\<close>

theorem delay_classification:
  "render_status d =
     (if d div 60 > 2 then LATE (d div 60)
      else if d div 60 < - 2 then EARLY (- (d div 60)) else ON_TIME)
   \<and> render_status 181 = LATE 3 \<and> render_status (- 181) = EARLY 4
   \<and> render_status 90 = ON_TIME \<and> render_status (- 90) = ON_TIME"
  by (simp add: render_status_def Let_def)

text \<open>
  The per-location scripts divide in the same way and compare the minutes with zero:
  90 seconds is shown there as one minute late.
\<close>

lemma print_board_status_examples:
  "print_board_status 90 = LATE 1 \<and> print_board_status (- 90) = EARLY 2
   \<and> print_board_status 59 = ON_TIME \<and> print_board_status (- 1) = EARLY 1"
  by (simp add: print_board_status_def Let_def)

text \<open>
  C10. Since the division rounds down, the boundaries are not symmetric in seconds: the
  status is ON TIME exactly for delays from -120 to 179 seconds, LATE exactly from 180
  seconds on, and EARLY exactly from -121 seconds down. So 150 seconds is ON TIME while
  -150 seconds is EARLY.
\<close>

theorem delay_classification_boundaries:
  "(render_status d = ON_TIME \<longleftrightarrow> - 120 \<le> d \<and> d \<le> 179)
   \<and> ((\<exists>m. render_status d = LATE m) \<longleftrightarrow> 180 \<le> d)
   \<and> ((\<exists>m. render_status d = EARLY m) \<longleftrightarrow> d \<le> - 121)
   \<and> render_status 179 = ON_TIME \<and> render_status 180 = LATE 3
   \<and> render_status (- 120) = ON_TIME \<and> render_status (- 121) = EARLY 3
   \<and> render_status 150 = ON_TIME \<and> render_status (- 150) = EARLY 3"
proof -
  have a: "render_status d = ON_TIME \<longleftrightarrow> - 120 \<le> d \<and> d \<le> 179"
    unfolding render_status_def Let_def div60_gt2 div60_lt_m2 by auto
  have b: "(\<exists>m. render_status d = LATE m) \<longleftrightarrow> 180 \<le> d"
    unfolding render_status_def Let_def div60_gt2 div60_lt_m2 by auto
  have c: "(\<exists>m. render_status d = EARLY m) \<longleftrightarrow> d \<le> - 121"
    unfolding render_status_def Let_def div60_gt2 div60_lt_m2 by auto
  have d: "render_status 179 = ON_TIME \<and> render_status 180 = LATE 3
   \<and> render_status (- 120) = ON_TIME \<and> render_status (- 121) = EARLY 3
   \<and> render_status 150 = ON_TIME \<and> render_status (- 150) = EARLY 3"
    by (simp add: render_status_def Let_def)
  from a b c d show ?thesis by blast
qed

end
